theory Spec2Isabelle
  imports Main "HOL-Library.Word"
begin

unbundle bit_operations_syntax

section \<open>The clipboard contribution of the editor (clipboard.ts)\<close>

text \<open>
  The module \<^verbatim>\<open>vs/editor/contrib/clipboard/clipboard.ts\<close> computes four capability
  flags when it is loaded, creates and registers up to three \<^verbatim>\<open>MultiCommand\<close>s
  (cut, copy, paste), gives each registered command two implementations (priority 10000:
  focus is in an editor; priority 0: focus is somewhere else) and registers one
  editor action (copy with syntax highlighting).
\<close>

subsection \<open>What the module imports\<close>

text \<open>
  \<^verbatim>\<open>platform.isNative\<close>, \<^verbatim>\<open>browser.isEdge\<close>, \<^verbatim>\<open>browser.isChrome\<close> and
  \<^verbatim>\<open>document.queryCommandSupported\<close> are read from the host; they are the module's
  inputs.
\<close>

record host =
  isNative :: bool
  isEdge :: bool
  isChrome :: bool
  queryCommandSupported :: "string \<Rightarrow> bool"

text \<open>
  The numeric values of \<^verbatim>\<open>KeyMod\<close> and \<^verbatim>\<open>KeyCode\<close> (vs/base/common/keyCodes) are
  not part of this module: they are parameters. A keybinding is the bitwise or of a
  modifier and a key code, a 32-bit number.
\<close>

record keys =
  KeyMod_CtrlCmd :: "32 word"
  KeyMod_Shift :: "32 word"
  KeyCode_KEY_X :: "32 word"
  KeyCode_KEY_C :: "32 word"
  KeyCode_KEY_V :: "32 word"
  KeyCode_Delete :: "32 word"
  KeyCode_Insert :: "32 word"

text \<open>\<^verbatim>\<open>EditorContextKeys\<close>, \<^verbatim>\<open>MenuId\<close> and \<^verbatim>\<open>KeybindingWeight\<close>: the members used here.\<close>

datatype context_key = textInputFocus | writable

datatype menu_id = MenubarEditMenu | EditorContext | CommandPalette

datatype keybinding_weight = EditorContrib

subsection \<open>Command options\<close>

text \<open>The per-platform part of a keybinding: \<^verbatim>\<open>{ primary, secondary }\<close>.\<close>

record platform_keys =
  primary_key :: "32 word"
  secondary :: "32 word list"

record kb_opts =
  kbExpr :: context_key
  primary :: "32 word"
  win :: "platform_keys option"
  linux :: "platform_keys option"
  weight :: keybinding_weight

text \<open>
  A menu entry. \<^verbatim>\<open>title\<close> is the default (English) message given to
  \<^verbatim>\<open>nls.localize\<close>; \<^verbatim>\<open>when\<close> is \<open>None\<close> where the source gives none.
\<close>

record menu_opts =
  menuId :: menu_id
  group_name :: string
  title :: string
  when_expr :: "context_key option"
  order_no :: nat

text \<open>The options every command is built from: id, precondition, kbOpts, menuOpts.\<close>

record command =
  id_str :: string
  precondition :: "context_key option"
  kbOpts :: "kb_opts option"
  menuOpts :: "menu_opts list"

subsection \<open>Editors, services and the effects of the module\<close>

text \<open>
  \<^verbatim>\<open>Selection.isEmpty()\<close> is all the module asks of a selection.
\<close>

record selection =
  isEmpty :: bool

text \<open>
  A code editor as the module sees it. \<open>modelSelection\<close> is \<open>None\<close> for an editor
  without a model; with a model it holds the selection, which is then never null
  (\<^verbatim>\<open>hasModel()\<close> is the type guard to \<^verbatim>\<open>IActiveCodeEditor\<close>, whose
  \<^verbatim>\<open>getSelection()\<close> returns a \<^verbatim>\<open>Selection\<close>).
\<close>

record code_editor =
  modelSelection :: "selection option"
  emptySelectionClipboard :: bool
  textFocus :: bool

definition hasModel :: "code_editor \<Rightarrow> bool" where
  "hasModel editor = (modelSelection editor \<noteq> None)"

definition getSelection :: "code_editor \<Rightarrow> selection option" where
  "getSelection editor = modelSelection editor"

definition hasTextFocus :: "code_editor \<Rightarrow> bool" where
  "hasTextFocus editor = textFocus editor"

text \<open>\<^verbatim>\<open>accessor.get(ICodeEditorService).getFocusedCodeEditor()\<close>: an editor or null.\<close>

record services_accessor =
  getFocusedCodeEditor :: "code_editor option"

text \<open>
  What the module does to the outside, in program order: a write of
  \<^verbatim>\<open>CopyOptions.forceCopyWithSyntaxHighlighting\<close>, \<^verbatim>\<open>editor.focus()\<close>, and
  \<^verbatim>\<open>document.execCommand(name)\<close>.
\<close>

datatype effect =
  SetForceCopyWithSyntaxHighlighting bool
  | EditorFocus
  | ExecCommand string

text \<open>
  The process-wide state: the flag of \<^verbatim>\<open>CopyOptions\<close> and the effects so far.
\<close>

record world =
  forceCopyWithSyntaxHighlighting :: bool
  effects :: "effect list"

definition set_forceCopyWithSyntaxHighlighting :: "bool \<Rightarrow> world \<Rightarrow> world" where
  "set_forceCopyWithSyntaxHighlighting b w =
     w\<lparr>forceCopyWithSyntaxHighlighting := b,
       effects := effects w @ [SetForceCopyWithSyntaxHighlighting b]\<rparr>"

definition editor_focus :: "world \<Rightarrow> world" where
  "editor_focus w = w\<lparr>effects := effects w @ [EditorFocus]\<rparr>"

definition document_execCommand :: "string \<Rightarrow> world \<Rightarrow> world" where
  "document_execCommand name w = w\<lparr>effects := effects w @ [ExecCommand name]\<rparr>"

text \<open>
  \<^verbatim>\<open>CopyOptions\<close> is declared in vs/editor/browser/controller/textAreaInput with the
  flag off; nothing has happened when the module is loaded.
\<close>

definition initial_world :: world where
  "initial_world = \<lparr>forceCopyWithSyntaxHighlighting = False, effects = []\<rparr>"

subsection \<open>MultiCommand\<close>

type_synonym command_implementation = "services_accessor \<Rightarrow> world \<Rightarrow> bool \<times> world"

record multi_command = command +
  implementations :: "(int \<times> command_implementation) list"

text \<open>\<^verbatim>\<open>new MultiCommand(opts)\<close>: the options, and no implementation yet.\<close>

definition new_MultiCommand :: "command \<Rightarrow> multi_command" where
  "new_MultiCommand opts =
     \<lparr>id_str = id_str opts, precondition = precondition opts, kbOpts = kbOpts opts,
      menuOpts = menuOpts opts, implementations = []\<rparr>"

text \<open>
  Modelled from the spec: \<^verbatim>\<open>MultiCommand.addImplementation\<close> and
  \<^verbatim>\<open>MultiCommand.runCommand\<close> (vs/editor/browser/editorExtensions) are not among the
  sources. The spec describes "a two-priority dispatch callback per command" and a
  "two-tier dispatch chain" that "dispatches to either the focused editor's text-input
  handling or a fallback handler when focus is elsewhere": the implementations are kept
  by descending priority and are tried in that order; the first one that returns true
  has handled the command and ends the chain.
\<close>

definition addImplementation ::
  "int \<Rightarrow> command_implementation \<Rightarrow> multi_command \<Rightarrow> multi_command" where
  "addImplementation priority implementation c =
     c\<lparr>implementations :=
         sort_key (\<lambda>p. - fst p) (implementations c @ [(priority, implementation)])\<rparr>"

fun run_implementations ::
  "(int \<times> command_implementation) list \<Rightarrow> services_accessor \<Rightarrow> world \<Rightarrow> world" where
  "run_implementations [] accessor w = w"
| "run_implementations (impl # impls) accessor w =
     (case snd impl accessor w of
        (True, w') \<Rightarrow> w'
      | (False, w') \<Rightarrow> run_implementations impls accessor w')"

definition runCommand :: "multi_command \<Rightarrow> services_accessor \<Rightarrow> world \<Rightarrow> world" where
  "runCommand c accessor w = run_implementations (implementations c) accessor w"

text \<open>
  Executing one of the module's exports runs its chain; an export that is undefined
  has no chain to run.
\<close>

definition executeCommand ::
  "multi_command option \<Rightarrow> services_accessor \<Rightarrow> world \<Rightarrow> world option" where
  "executeCommand target accessor w =
     (case target of None \<Rightarrow> None | Some c \<Rightarrow> Some (runCommand c accessor w))"

subsection \<open>Capability flags\<close>

definition supportsCut :: "host \<Rightarrow> bool" where
  "supportsCut h = (isNative h \<or> queryCommandSupported h ''cut'')"

definition supportsCopy :: "host \<Rightarrow> bool" where
  "supportsCopy h = (isNative h \<or> queryCommandSupported h ''copy'')"

definition supportsCopyWithSyntaxHighlighting :: "host \<Rightarrow> bool" where
  "supportsCopyWithSyntaxHighlighting h = (supportsCopy h \<and> \<not> isEdge h)"

definition supportsPaste :: "host \<Rightarrow> bool" where
  "supportsPaste h =
     (isNative h \<or> (\<not> isChrome h \<and> queryCommandSupported h ''paste''))"

subsection \<open>The three commands\<close>

definition CLIPBOARD_CONTEXT_MENU_GROUP :: string where
  "CLIPBOARD_CONTEXT_MENU_GROUP = ''9_cutcopypaste''"

definition cut_options :: "host \<Rightarrow> keys \<Rightarrow> command" where
  "cut_options h k =
     \<lparr>id_str = ''editor.action.clipboardCutAction'',
      precondition = None,
      kbOpts =
        (if isNative h then
           Some \<lparr>kbExpr = textInputFocus,
                 primary = KeyMod_CtrlCmd k OR KeyCode_KEY_X k,
                 win = Some \<lparr>primary_key = KeyMod_CtrlCmd k OR KeyCode_KEY_X k,
                             secondary = [KeyMod_Shift k OR KeyCode_Delete k]\<rparr>,
                 linux = None,
                 weight = EditorContrib\<rparr>
         else None),
      menuOpts =
        [\<lparr>menuId = MenubarEditMenu, group_name = ''2_ccp'', title = ''Cu&&t'',
          when_expr = None, order_no = 1\<rparr>,
         \<lparr>menuId = EditorContext, group_name = CLIPBOARD_CONTEXT_MENU_GROUP, title = ''Cut'',
          when_expr = Some writable, order_no = 1\<rparr>,
         \<lparr>menuId = CommandPalette, group_name = [], title = ''Cut'',
          when_expr = None, order_no = 1\<rparr>]\<rparr>"

definition copy_options :: "host \<Rightarrow> keys \<Rightarrow> command" where
  "copy_options h k =
     \<lparr>id_str = ''editor.action.clipboardCopyAction'',
      precondition = None,
      kbOpts =
        (if isNative h then
           Some \<lparr>kbExpr = textInputFocus,
                 primary = KeyMod_CtrlCmd k OR KeyCode_KEY_C k,
                 win = Some \<lparr>primary_key = KeyMod_CtrlCmd k OR KeyCode_KEY_C k,
                             secondary = [KeyMod_CtrlCmd k OR KeyCode_Insert k]\<rparr>,
                 linux = None,
                 weight = EditorContrib\<rparr>
         else None),
      menuOpts =
        [\<lparr>menuId = MenubarEditMenu, group_name = ''2_ccp'', title = ''&&Copy'',
          when_expr = None, order_no = 2\<rparr>,
         \<lparr>menuId = EditorContext, group_name = CLIPBOARD_CONTEXT_MENU_GROUP, title = ''Copy'',
          when_expr = None, order_no = 2\<rparr>,
         \<lparr>menuId = CommandPalette, group_name = [], title = ''Copy'',
          when_expr = None, order_no = 1\<rparr>]\<rparr>"

definition paste_options :: "host \<Rightarrow> keys \<Rightarrow> command" where
  "paste_options h k =
     \<lparr>id_str = ''editor.action.clipboardPasteAction'',
      precondition = None,
      kbOpts =
        (if isNative h then
           Some \<lparr>kbExpr = textInputFocus,
                 primary = KeyMod_CtrlCmd k OR KeyCode_KEY_V k,
                 win = Some \<lparr>primary_key = KeyMod_CtrlCmd k OR KeyCode_KEY_V k,
                             secondary = [KeyMod_Shift k OR KeyCode_Insert k]\<rparr>,
                 linux = Some \<lparr>primary_key = KeyMod_CtrlCmd k OR KeyCode_KEY_V k,
                               secondary = [KeyMod_Shift k OR KeyCode_Insert k]\<rparr>,
                 weight = EditorContrib\<rparr>
         else None),
      menuOpts =
        [\<lparr>menuId = MenubarEditMenu, group_name = ''2_ccp'', title = ''&&Paste'',
          when_expr = None, order_no = 3\<rparr>,
         \<lparr>menuId = EditorContext, group_name = CLIPBOARD_CONTEXT_MENU_GROUP, title = ''Paste'',
          when_expr = Some writable, order_no = 3\<rparr>,
         \<lparr>menuId = CommandPalette, group_name = [], title = ''Paste'',
          when_expr = None, order_no = 1\<rparr>]\<rparr>"

text \<open>
  \<^verbatim>\<open>registerCommand\<close> calls \<^verbatim>\<open>command.register()\<close> and returns the command. The
  registries behind \<^verbatim>\<open>register()\<close> are not part of this module; what is recorded is
  the call: the options (id, keybinding, menu entries) of each command it was made on.
\<close>

definition options_of :: "multi_command \<Rightarrow> command" where
  "options_of c =
     \<lparr>id_str = id_str c, precondition = precondition c, kbOpts = kbOpts c,
      menuOpts = menuOpts c\<rparr>"

definition registerCommand ::
  "multi_command \<Rightarrow> command list \<Rightarrow> multi_command \<times> command list" where
  "registerCommand c registered = (c, registered @ [options_of c])"

subsection \<open>Copy with syntax highlighting\<close>

record editor_action = command +
  label :: string
  alias_str :: string

text \<open>The constructor's options; the action has no menu entries.\<close>

definition ExecCommandCopyWithSyntaxHighlightingAction :: editor_action where
  "ExecCommandCopyWithSyntaxHighlightingAction =
     \<lparr>id_str = ''editor.action.clipboardCopyWithSyntaxHighlightingAction'',
      precondition = None,
      kbOpts = Some \<lparr>kbExpr = textInputFocus, primary = 0, win = None, linux = None,
                     weight = EditorContrib\<rparr>,
      menuOpts = [],
      label = ''Copy With Syntax Highlighting'',
      alias_str = ''Copy With Syntax Highlighting''\<rparr>"

text \<open>
  \<^verbatim>\<open>run(accessor, editor)\<close>. After \<^verbatim>\<open>hasModel()\<close> the selection is not null, so the
  \<open>None\<close> branch below is never taken (lemma \<open>hasModel_getSelection\<close>).
\<close>

definition run :: "services_accessor \<Rightarrow> code_editor \<Rightarrow> world \<Rightarrow> world" where
  "run accessor editor w =
     (if \<not> hasModel editor then w
      else
        case getSelection editor of
          None \<Rightarrow> w
        | Some selection \<Rightarrow>
            if \<not> emptySelectionClipboard editor \<and> isEmpty selection then w
            else
              set_forceCopyWithSyntaxHighlighting False
                (document_execCommand ''copy''
                  (editor_focus
                    (set_forceCopyWithSyntaxHighlighting True w))))"

subsection \<open>The two implementations of each command\<close>

text \<open>1. handle case when focus is in editor (priority 10000).\<close>

definition focused_editor_implementation :: "string \<Rightarrow> command_implementation" where
  "focused_editor_implementation browserCommand accessor w =
     (case getFocusedCodeEditor accessor of
        None \<Rightarrow> (False, w)
      | Some focusedEditor \<Rightarrow>
          if hasTextFocus focusedEditor then
            if (browserCommand = ''cut'' \<or> browserCommand = ''copy'') \<and>
               (case getSelection focusedEditor of
                  None \<Rightarrow> False
                | Some selection \<Rightarrow>
                    isEmpty selection \<and> \<not> emptySelectionClipboard focusedEditor)
            then (True, w)
            else (True, document_execCommand browserCommand w)
          else (False, w))"

text \<open>2. (default) handle case when focus is somewhere else (priority 0).\<close>

definition default_implementation :: "string \<Rightarrow> command_implementation" where
  "default_implementation browserCommand accessor w =
     (True, document_execCommand browserCommand w)"

definition registerExecCommandImpl ::
  "multi_command option \<Rightarrow> string \<Rightarrow> multi_command option" where
  "registerExecCommandImpl target browserCommand =
     (case target of
        None \<Rightarrow> None
      | Some t \<Rightarrow>
          Some (addImplementation 0 (default_implementation browserCommand)
                 (addImplementation 10000 (focused_editor_implementation browserCommand) t)))"

subsection \<open>Loading the module\<close>

text \<open>
  The module's exports and what it has registered once its top-level statements have
  run, in the order of the source.
\<close>

record clipboard_module =
  CutAction :: "multi_command option"
  CopyAction :: "multi_command option"
  PasteAction :: "multi_command option"
  registeredCommands :: "command list"
  registeredEditorActions :: "editor_action list"

definition registerEditorAction ::
  "editor_action \<Rightarrow> editor_action list \<Rightarrow> editor_action list" where
  "registerEditorAction a registered = registered @ [a]"

definition load_module :: "host \<Rightarrow> keys \<Rightarrow> clipboard_module" where
  "load_module h k =
     (let (cutAction, reg1) =
            (if supportsCut h
             then map_prod Some id (registerCommand (new_MultiCommand (cut_options h k)) [])
             else (None, []));
          (copyAction, reg2) =
            (if supportsCopy h
             then map_prod Some id (registerCommand (new_MultiCommand (copy_options h k)) reg1)
             else (None, reg1));
          (pasteAction, reg3) =
            (if supportsPaste h
             then map_prod Some id (registerCommand (new_MultiCommand (paste_options h k)) reg2)
             else (None, reg2));
          cutAction' = registerExecCommandImpl cutAction ''cut'';
          copyAction' = registerExecCommandImpl copyAction ''copy'';
          pasteAction' = registerExecCommandImpl pasteAction ''paste'';
          actions =
            (if supportsCopyWithSyntaxHighlighting h
             then registerEditorAction ExecCommandCopyWithSyntaxHighlightingAction []
             else [])
      in \<lparr>CutAction = cutAction', CopyAction = copyAction', PasteAction = pasteAction',
          registeredCommands = reg3, registeredEditorActions = actions\<rparr>)"

subsection \<open>Menus\<close>

text \<open>
  Modelled from the spec: the menu service (vs/platform/actions) is not among the
  sources; the spec says only that the module wires the commands to "menu entries". An
  entry is offered in its menu when it has no \<^verbatim>\<open>when\<close> condition or its condition
  holds in the context of the editor; \<^verbatim>\<open>EditorContextKeys.writable\<close> is false in a
  read-only editor.
\<close>

definition menu_entry_offered :: "(context_key \<Rightarrow> bool) \<Rightarrow> menu_opts \<Rightarrow> bool" where
  "menu_entry_offered ctx entry =
     (case when_expr entry of None \<Rightarrow> True | Some key \<Rightarrow> ctx key)"

definition menu_entries ::
  "clipboard_module \<Rightarrow> menu_id \<Rightarrow> (context_key \<Rightarrow> bool) \<Rightarrow> (string \<times> menu_opts) list" where
  "menu_entries m menu ctx =
     concat (map (\<lambda>c. map (\<lambda>entry. (id_str c, entry))
                      (filter (\<lambda>entry. menuId entry = menu \<and> menu_entry_offered ctx entry)
                         (menuOpts c)))
              (registeredCommands m))"

subsection \<open>Runs of the module's callbacks\<close>

text \<open>
  After the module is loaded, the outside calls \<^verbatim>\<open>run\<close> of the action and the two
  implementations of the commands, in any order and with any arguments. The worlds
  that can be reached are those \<open>invoke_all\<close> gives from \<open>initial_world\<close>.
\<close>

datatype invocation =
  Run services_accessor code_editor
  | FocusedEditorImplementation string services_accessor
  | DefaultImplementation string services_accessor

fun invoke :: "invocation \<Rightarrow> world \<Rightarrow> world" where
  "invoke (Run accessor editor) w = run accessor editor w"
| "invoke (FocusedEditorImplementation browserCommand accessor) w =
     snd (focused_editor_implementation browserCommand accessor w)"
| "invoke (DefaultImplementation browserCommand accessor) w =
     snd (default_implementation browserCommand accessor w)"

fun invoke_all :: "invocation list \<Rightarrow> world \<Rightarrow> world" where
  "invoke_all [] w = w"
| "invoke_all (i # is) w = invoke_all is (invoke i w)"

subsection \<open>Concrete hosts, editors and key codes\<close>

text \<open>
  Inputs at which the theorems below are evaluated: a native host, three browsers, a
  context in which the editor is read-only, editors with and without a model, and the
  services seen with each of them focused. The key codes are sample values.
\<close>

definition example_keys :: keys where
  "example_keys =
     \<lparr>KeyMod_CtrlCmd = 2048, KeyMod_Shift = 1024, KeyCode_KEY_X = 54, KeyCode_KEY_C = 33,
      KeyCode_KEY_V = 52, KeyCode_Delete = 20, KeyCode_Insert = 19\<rparr>"

definition native_host :: host where
  "native_host =
     \<lparr>isNative = True, isEdge = False, isChrome = False,
      queryCommandSupported = (\<lambda>name. False)\<rparr>"

definition chrome_browser :: host where
  "chrome_browser =
     \<lparr>isNative = False, isEdge = False, isChrome = True,
      queryCommandSupported = (\<lambda>name. True)\<rparr>"

definition edge_browser :: host where
  "edge_browser =
     \<lparr>isNative = False, isEdge = True, isChrome = False,
      queryCommandSupported = (\<lambda>name. name = ''copy'' \<or> name = ''cut'')\<rparr>"

definition plain_browser :: host where
  "plain_browser =
     \<lparr>isNative = False, isEdge = False, isChrome = False,
      queryCommandSupported = (\<lambda>name. name = ''copy'')\<rparr>"

definition read_only_context :: "context_key \<Rightarrow> bool" where
  "read_only_context key = (key = textInputFocus)"

definition editor_without_model :: code_editor where
  "editor_without_model =
     \<lparr>modelSelection = None, emptySelectionClipboard = True, textFocus = True\<rparr>"

definition editor_empty_selection :: code_editor where
  "editor_empty_selection =
     \<lparr>modelSelection = Some \<lparr>isEmpty = True\<rparr>, emptySelectionClipboard = False,
      textFocus = True\<rparr>"

definition editor_with_selection :: code_editor where
  "editor_with_selection =
     \<lparr>modelSelection = Some \<lparr>isEmpty = False\<rparr>, emptySelectionClipboard = False,
      textFocus = True\<rparr>"

definition no_editor_focused :: services_accessor where
  "no_editor_focused = \<lparr>getFocusedCodeEditor = None\<rparr>"

definition empty_selection_focused :: services_accessor where
  "empty_selection_focused = \<lparr>getFocusedCodeEditor = Some editor_empty_selection\<rparr>"

definition selection_focused :: services_accessor where
  "selection_focused = \<lparr>getFocusedCodeEditor = Some editor_with_selection\<rparr>"

section \<open>Properties\<close>

subsection \<open>Loading the module: auxiliary facts\<close>

lemma options_of_new [simp]: "options_of (new_MultiCommand opts) = opts"
  by (simp add: options_of_def new_MultiCommand_def)

lemma implementations_new [simp]: "implementations (new_MultiCommand opts) = []"
  by (simp add: new_MultiCommand_def)

lemma kbOpts_new [simp]: "kbOpts (new_MultiCommand opts) = kbOpts opts"
  by (simp add: new_MultiCommand_def)

lemma kbOpts_addImplementation [simp]: "kbOpts (addImplementation p f c) = kbOpts c"
  by (simp add: addImplementation_def)

lemma options_of_addImplementation [simp]:
  "options_of (addImplementation p f c) = options_of c"
  by (simp add: options_of_def addImplementation_def)

lemma implementations_two [simp]:
  "implementations
     (addImplementation 0 g (addImplementation 10000 f (new_MultiCommand opts))) =
   [(10000, f), (0, g)]"
  by (simp add: addImplementation_def)

lemma CutAction_load:
  "CutAction (load_module h k) =
     (if supportsCut h
      then Some (addImplementation 0 (default_implementation ''cut'')
                  (addImplementation 10000 (focused_editor_implementation ''cut'')
                    (new_MultiCommand (cut_options h k))))
      else None)"
  by (simp add: load_module_def registerCommand_def registerExecCommandImpl_def Let_def
      split: prod.splits)

lemma CopyAction_load:
  "CopyAction (load_module h k) =
     (if supportsCopy h
      then Some (addImplementation 0 (default_implementation ''copy'')
                  (addImplementation 10000 (focused_editor_implementation ''copy'')
                    (new_MultiCommand (copy_options h k))))
      else None)"
  by (simp add: load_module_def registerCommand_def registerExecCommandImpl_def Let_def
      split: prod.splits)

lemma PasteAction_load:
  "PasteAction (load_module h k) =
     (if supportsPaste h
      then Some (addImplementation 0 (default_implementation ''paste'')
                  (addImplementation 10000 (focused_editor_implementation ''paste'')
                    (new_MultiCommand (paste_options h k))))
      else None)"
  by (simp add: load_module_def registerCommand_def registerExecCommandImpl_def Let_def
      split: prod.splits)

lemma registeredCommands_load:
  "registeredCommands (load_module h k) =
     (if supportsCut h then [cut_options h k] else []) @
     (if supportsCopy h then [copy_options h k] else []) @
     (if supportsPaste h then [paste_options h k] else [])"
  by (simp add: load_module_def registerCommand_def Let_def split: prod.splits)

lemma registeredEditorActions_load:
  "registeredEditorActions (load_module h k) =
     (if supportsCopyWithSyntaxHighlighting h
      then [ExecCommandCopyWithSyntaxHighlightingAction] else [])"
  by (simp add: load_module_def registerEditorAction_def Let_def split: prod.splits)

lemma id_str_options [simp]:
  "id_str (cut_options h k) = ''editor.action.clipboardCutAction''"
  "id_str (copy_options h k) = ''editor.action.clipboardCopyAction''"
  "id_str (paste_options h k) = ''editor.action.clipboardPasteAction''"
  by (simp_all add: cut_options_def copy_options_def paste_options_def)

lemma registered_ids:
  "map id_str (registeredCommands (load_module h k)) =
     (if supportsCut h then [''editor.action.clipboardCutAction''] else []) @
     (if supportsCopy h then [''editor.action.clipboardCopyAction''] else []) @
     (if supportsPaste h then [''editor.action.clipboardPasteAction''] else [])"
  by (simp add: registeredCommands_load)

subsection \<open>Capabilities\<close>

text \<open>
  C8: in the browser (not native) on Chrome, \<open>supportsPaste\<close> is false whatever
  \<^verbatim>\<open>document.queryCommandSupported('paste')\<close> answers, so the paste command is not
  created and not registered.
\<close>

theorem paste_unsupported_in_browser_on_chrome:
  "\<not> isNative h \<Longrightarrow> isChrome h \<Longrightarrow>
     \<not> supportsPaste h \<and>
     PasteAction (load_module h k) = None \<and>
     ''editor.action.clipboardPasteAction''
       \<notin> set (map id_str (registeredCommands (load_module h k)))"
  by (simp add: PasteAction_load registered_ids supportsPaste_def)

theorem paste_unsupported_in_browser_on_chrome_witness:
  "\<not> isNative chrome_browser \<and> isChrome chrome_browser \<and>
   queryCommandSupported chrome_browser ''paste'' \<and>
   \<not> supportsPaste chrome_browser \<and>
   PasteAction (load_module chrome_browser example_keys) = None \<and>
   ''editor.action.clipboardPasteAction''
     \<notin> set (map id_str (registeredCommands (load_module chrome_browser example_keys)))"
  using paste_unsupported_in_browser_on_chrome [of chrome_browser example_keys]
  by (simp add: chrome_browser_def)

text \<open>
  C9: the copy-with-syntax-highlighting action is registered if and only if copy is
  supported and the browser is not Edge, and its keybinding has primary 0 (none).
\<close>

theorem copy_with_syntax_highlighting_registered:
  "registeredEditorActions (load_module h k) =
     (if supportsCopy h \<and> \<not> isEdge h
      then [ExecCommandCopyWithSyntaxHighlightingAction] else []) \<and>
   supportsCopyWithSyntaxHighlighting h = (supportsCopy h \<and> \<not> isEdge h) \<and>
   map_option primary (kbOpts ExecCommandCopyWithSyntaxHighlightingAction) = Some 0"
  by (simp add: registeredEditorActions_load supportsCopyWithSyntaxHighlighting_def
      ExecCommandCopyWithSyntaxHighlightingAction_def)

theorem copy_with_syntax_highlighting_registered_witness:
  "registeredEditorActions (load_module native_host example_keys) =
     [ExecCommandCopyWithSyntaxHighlightingAction] \<and>
   registeredEditorActions (load_module edge_browser example_keys) = [] \<and>
   supportsCopy edge_browser \<and> isEdge edge_browser \<and>
   map_option primary (kbOpts ExecCommandCopyWithSyntaxHighlightingAction) = Some 0"
  using copy_with_syntax_highlighting_registered [of native_host example_keys]
    copy_with_syntax_highlighting_registered [of edge_browser example_keys]
  by (simp add: native_host_def edge_browser_def supportsCopy_def)

subsection \<open>Which commands exist\<close>

text \<open>
  C4: each of the three commands is created, registered and given its two
  implementations if and only if its capability flag is true. Where the flag is false
  the export is undefined (\<open>None\<close>), no options (id, keybinding, menu entries) are
  registered under the command's id, and there is no implementation; loading the module
  does not fail.
\<close>

theorem commands_exist_iff_supported:
  "(CutAction (load_module h k) \<noteq> None) = supportsCut h \<and>
   (CopyAction (load_module h k) \<noteq> None) = supportsCopy h \<and>
   (PasteAction (load_module h k) \<noteq> None) = supportsPaste h \<and>
   filter (\<lambda>c. id_str c = ''editor.action.clipboardCutAction'')
       (registeredCommands (load_module h k)) =
     (if supportsCut h then [cut_options h k] else []) \<and>
   filter (\<lambda>c. id_str c = ''editor.action.clipboardCopyAction'')
       (registeredCommands (load_module h k)) =
     (if supportsCopy h then [copy_options h k] else []) \<and>
   filter (\<lambda>c. id_str c = ''editor.action.clipboardPasteAction'')
       (registeredCommands (load_module h k)) =
     (if supportsPaste h then [paste_options h k] else []) \<and>
   map_option (\<lambda>c. map fst (implementations c)) (CutAction (load_module h k)) =
     (if supportsCut h then Some [10000, 0] else None) \<and>
   map_option (\<lambda>c. map fst (implementations c)) (CopyAction (load_module h k)) =
     (if supportsCopy h then Some [10000, 0] else None) \<and>
   map_option (\<lambda>c. map fst (implementations c)) (PasteAction (load_module h k)) =
     (if supportsPaste h then Some [10000, 0] else None)"
  by (simp add: CutAction_load CopyAction_load PasteAction_load registeredCommands_load)

theorem commands_exist_iff_supported_witness:
  "supportsCopy plain_browser \<and> \<not> supportsCut plain_browser \<and>
   \<not> supportsPaste plain_browser \<and>
   CutAction (load_module plain_browser example_keys) = None \<and>
   CopyAction (load_module plain_browser example_keys) \<noteq> None \<and>
   PasteAction (load_module plain_browser example_keys) = None \<and>
   map id_str (registeredCommands (load_module plain_browser example_keys)) =
     [''editor.action.clipboardCopyAction''] \<and>
   map_option (\<lambda>c. map fst (implementations c))
       (CopyAction (load_module plain_browser example_keys)) = Some [10000, 0]"
  using commands_exist_iff_supported [of plain_browser example_keys]
  by (simp add: registered_ids plain_browser_def supportsCut_def supportsCopy_def
      supportsPaste_def)

text \<open>
  C5: the keybinding of each command is defined exactly when \<^verbatim>\<open>platform.isNative\<close>
  is true: primary Ctrl/Cmd+X, +C, +V, the secondary keys of Windows (and of Linux for
  paste), bound under \<^verbatim>\<open>EditorContextKeys.textInputFocus\<close>. In the browser it is
  undefined. So it is for the options of every registered command.
\<close>

theorem keybindings_only_when_native:
  "map_option kbOpts (CutAction (load_module h k)) =
     (if supportsCut h then
        Some (if isNative h then
                Some \<lparr>kbExpr = textInputFocus,
                      primary = KeyMod_CtrlCmd k OR KeyCode_KEY_X k,
                      win = Some \<lparr>primary_key = KeyMod_CtrlCmd k OR KeyCode_KEY_X k,
                                  secondary = [KeyMod_Shift k OR KeyCode_Delete k]\<rparr>,
                      linux = None,
                      weight = EditorContrib\<rparr>
              else None)
      else None) \<and>
   map_option kbOpts (CopyAction (load_module h k)) =
     (if supportsCopy h then
        Some (if isNative h then
                Some \<lparr>kbExpr = textInputFocus,
                      primary = KeyMod_CtrlCmd k OR KeyCode_KEY_C k,
                      win = Some \<lparr>primary_key = KeyMod_CtrlCmd k OR KeyCode_KEY_C k,
                                  secondary = [KeyMod_CtrlCmd k OR KeyCode_Insert k]\<rparr>,
                      linux = None,
                      weight = EditorContrib\<rparr>
              else None)
      else None) \<and>
   map_option kbOpts (PasteAction (load_module h k)) =
     (if supportsPaste h then
        Some (if isNative h then
                Some \<lparr>kbExpr = textInputFocus,
                      primary = KeyMod_CtrlCmd k OR KeyCode_KEY_V k,
                      win = Some \<lparr>primary_key = KeyMod_CtrlCmd k OR KeyCode_KEY_V k,
                                  secondary = [KeyMod_Shift k OR KeyCode_Insert k]\<rparr>,
                      linux = Some \<lparr>primary_key = KeyMod_CtrlCmd k OR KeyCode_KEY_V k,
                                    secondary = [KeyMod_Shift k OR KeyCode_Insert k]\<rparr>,
                      weight = EditorContrib\<rparr>
              else None)
      else None) \<and>
   list_all (\<lambda>c. (kbOpts c \<noteq> None) = isNative h)
     (registeredCommands (load_module h k))"
  by (simp add: CutAction_load CopyAction_load PasteAction_load registeredCommands_load
      cut_options_def copy_options_def paste_options_def)

theorem keybindings_only_when_native_witness:
  "isNative native_host \<and>
   map_option kbOpts (CutAction (load_module native_host example_keys)) =
     Some (Some \<lparr>kbExpr = textInputFocus, primary = 2102,
                  win = Some \<lparr>primary_key = 2102, secondary = [1044]\<rparr>,
                  linux = None, weight = EditorContrib\<rparr>) \<and>
   \<not> isNative plain_browser \<and>
   map_option kbOpts (CopyAction (load_module plain_browser example_keys)) = Some None"
  using keybindings_only_when_native [of native_host example_keys]
    keybindings_only_when_native [of plain_browser example_keys]
  by (simp add: native_host_def plain_browser_def example_keys_def supportsCut_def
      supportsCopy_def)

text \<open>
  C10: in the editor context menu the cut and paste entries carry the condition
  \<^verbatim>\<open>EditorContextKeys.writable\<close> and the copy entry carries none, so in the context
  of a read-only editor the only clipboard entry offered is that of copy (when copy is
  registered).
\<close>

theorem context_menu_of_read_only_editor:
  "\<not> ctx writable \<Longrightarrow>
     map when_expr (filter (\<lambda>entry. menuId entry = EditorContext) (menuOpts (cut_options h k))) =
       [Some writable] \<and>
     map when_expr (filter (\<lambda>entry. menuId entry = EditorContext) (menuOpts (copy_options h k))) =
       [None] \<and>
     map when_expr (filter (\<lambda>entry. menuId entry = EditorContext) (menuOpts (paste_options h k))) =
       [Some writable] \<and>
     map fst (menu_entries (load_module h k) EditorContext ctx) =
       (if supportsCopy h then [''editor.action.clipboardCopyAction''] else [])"
  by (simp add: menu_entries_def menu_entry_offered_def registeredCommands_load
      cut_options_def copy_options_def paste_options_def)

theorem context_menu_of_read_only_editor_witness:
  "\<not> read_only_context writable \<and>
   map fst (menu_entries (load_module native_host example_keys) EditorContext
              read_only_context) = [''editor.action.clipboardCopyAction''] \<and>
   map fst (menu_entries (load_module native_host example_keys) EditorContext
              (\<lambda>key. True)) =
     [''editor.action.clipboardCutAction'', ''editor.action.clipboardCopyAction'',
      ''editor.action.clipboardPasteAction'']"
  using context_menu_of_read_only_editor [of read_only_context native_host example_keys]
  by (simp add: read_only_context_def native_host_def supportsCopy_def supportsCut_def
      supportsPaste_def menu_entries_def menu_entry_offered_def registeredCommands_load
      cut_options_def copy_options_def paste_options_def)

subsection \<open>Copy with syntax highlighting: run\<close>

lemma hasModel_getSelection: "hasModel editor \<Longrightarrow> getSelection editor \<noteq> None"
  by (simp add: hasModel_def getSelection_def)

text \<open>
  C6: \<^verbatim>\<open>run\<close> returns with no effect (no \<^verbatim>\<open>document.execCommand\<close>, no focus
  change, the flag untouched) when the editor has no model, or when the selection is
  empty and \<^verbatim>\<open>emptySelectionClipboard\<close> is off.
\<close>

theorem run_without_effect:
  "\<not> hasModel editor \<or>
   (map_option isEmpty (getSelection editor) = Some True \<and>
    \<not> emptySelectionClipboard editor) \<Longrightarrow>
   run accessor editor w = w"
  by (auto simp add: run_def split: option.splits)

theorem run_without_effect_witness:
  "\<not> hasModel editor_without_model \<and>
   run no_editor_focused editor_without_model initial_world = initial_world \<and>
   hasModel editor_empty_selection \<and>
   map_option isEmpty (getSelection editor_empty_selection) = Some True \<and>
   \<not> emptySelectionClipboard editor_empty_selection \<and>
   run no_editor_focused editor_empty_selection initial_world = initial_world \<and>
   effects (run no_editor_focused editor_empty_selection initial_world) = [] \<and>
   \<not> forceCopyWithSyntaxHighlighting
       (run no_editor_focused editor_empty_selection initial_world)"
  using run_without_effect [of editor_without_model no_editor_focused initial_world]
    run_without_effect [of editor_empty_selection no_editor_focused initial_world]
  by (simp add: editor_without_model_def editor_empty_selection_def hasModel_def
      getSelection_def initial_world_def)

text \<open>
  Neither implementation of a command writes the flag, and \<^verbatim>\<open>run\<close> leaves it
  off when it was off: it is off in every world that can be reached.
\<close>

lemma force_focused_editor_implementation:
  "forceCopyWithSyntaxHighlighting (snd (focused_editor_implementation c accessor w)) =
   forceCopyWithSyntaxHighlighting w"
  by (simp add: focused_editor_implementation_def document_execCommand_def
      split: option.splits)

lemma force_default_implementation:
  "forceCopyWithSyntaxHighlighting (snd (default_implementation c accessor w)) =
   forceCopyWithSyntaxHighlighting w"
  by (simp add: default_implementation_def document_execCommand_def)

lemma force_run:
  "\<not> forceCopyWithSyntaxHighlighting w \<Longrightarrow>
   \<not> forceCopyWithSyntaxHighlighting (run accessor editor w)"
  by (simp add: run_def set_forceCopyWithSyntaxHighlighting_def document_execCommand_def
      editor_focus_def split: option.splits)

lemma force_invoke:
  "\<not> forceCopyWithSyntaxHighlighting w \<Longrightarrow> \<not> forceCopyWithSyntaxHighlighting (invoke i w)"
  by (cases i)
    (simp_all add: force_run force_focused_editor_implementation
      force_default_implementation)

lemma force_invoke_all:
  "\<not> forceCopyWithSyntaxHighlighting w \<Longrightarrow>
   \<not> forceCopyWithSyntaxHighlighting (invoke_all is w)"
  by (induction "is" arbitrary: w) (simp_all add: force_invoke)

lemma effects_run:
  "effects (run accessor editor w) =
   effects w @
     (case getSelection editor of
        None \<Rightarrow> []
      | Some selection \<Rightarrow>
          if \<not> emptySelectionClipboard editor \<and> isEmpty selection then []
          else [SetForceCopyWithSyntaxHighlighting True, EditorFocus, ExecCommand ''copy'',
                SetForceCopyWithSyntaxHighlighting False])"
  by (simp add: run_def set_forceCopyWithSyntaxHighlighting_def document_execCommand_def
      editor_focus_def hasModel_def getSelection_def split: option.splits)

lemma run_cases:
  "run accessor editor w =
     (case getSelection editor of
        None \<Rightarrow> w
      | Some selection \<Rightarrow>
          if \<not> emptySelectionClipboard editor \<and> isEmpty selection then w
          else
            set_forceCopyWithSyntaxHighlighting False
              (document_execCommand ''copy''
                (editor_focus (set_forceCopyWithSyntaxHighlighting True w))))"
  by (simp add: run_def hasModel_def getSelection_def split: option.splits)

lemma force_at_call:
  "forceCopyWithSyntaxHighlighting
     (editor_focus (set_forceCopyWithSyntaxHighlighting True w))"
  by (simp add: editor_focus_def set_forceCopyWithSyntaxHighlighting_def)

text \<open>
  C3, as stated, fails: the write that sets the flag is not immediately before the call
  of \<^verbatim>\<open>document.execCommand('copy')\<close>. In the effects of \<^verbatim>\<open>run\<close> on an editor with
  a selection, the step just before the call is \<^verbatim>\<open>editor.focus()\<close>.
\<close>

theorem flag_write_not_immediately_before_counterexample:
  "effects (run no_editor_focused editor_with_selection initial_world) =
     [SetForceCopyWithSyntaxHighlighting True, EditorFocus, ExecCommand ''copy'',
      SetForceCopyWithSyntaxHighlighting False] \<and>
   effects (run no_editor_focused editor_with_selection initial_world) ! 2 =
     ExecCommand ''copy'' \<and>
   effects (run no_editor_focused editor_with_selection initial_world) ! 1 = EditorFocus \<and>
   effects (run no_editor_focused editor_with_selection initial_world) ! 1 \<noteq>
     SetForceCopyWithSyntaxHighlighting True"
  by (simp add: effects_run editor_with_selection_def getSelection_def initial_world_def)

text \<open>
  C3, amended: in every world that can be reached, the flag is off when \<^verbatim>\<open>run\<close> is
  entered and off when it returns, on every path. On the path that copies, \<^verbatim>\<open>run\<close>
  sets the flag, focuses the editor, calls \<^verbatim>\<open>document.execCommand('copy')\<close> once in a
  world where the flag is on, and clears the flag immediately after the call; only
  \<^verbatim>\<open>editor.focus()\<close> lies between the write and the call. On the other paths
  \<^verbatim>\<open>run\<close> does nothing.
\<close>

theorem run_sets_and_clears_force_flag:
  "\<not> forceCopyWithSyntaxHighlighting (invoke_all is initial_world) \<and>
   run accessor editor (invoke_all is initial_world) =
     (case getSelection editor of
        None \<Rightarrow> invoke_all is initial_world
      | Some selection \<Rightarrow>
          if \<not> emptySelectionClipboard editor \<and> isEmpty selection
          then invoke_all is initial_world
          else
            set_forceCopyWithSyntaxHighlighting False
              (document_execCommand ''copy''
                (editor_focus
                  (set_forceCopyWithSyntaxHighlighting True
                    (invoke_all is initial_world))))) \<and>
   forceCopyWithSyntaxHighlighting
     (editor_focus
       (set_forceCopyWithSyntaxHighlighting True (invoke_all is initial_world))) \<and>
   effects (run accessor editor (invoke_all is initial_world)) =
     effects (invoke_all is initial_world) @
       (case getSelection editor of
          None \<Rightarrow> []
        | Some selection \<Rightarrow>
            if \<not> emptySelectionClipboard editor \<and> isEmpty selection then []
            else [SetForceCopyWithSyntaxHighlighting True, EditorFocus,
                  ExecCommand ''copy'', SetForceCopyWithSyntaxHighlighting False]) \<and>
   \<not> forceCopyWithSyntaxHighlighting (run accessor editor (invoke_all is initial_world))"
proof -
  have "\<not> forceCopyWithSyntaxHighlighting initial_world"
    by (simp add: initial_world_def)
  then have start: "\<not> forceCopyWithSyntaxHighlighting (invoke_all is initial_world)"
    by (rule force_invoke_all)
  then have finish:
    "\<not> forceCopyWithSyntaxHighlighting (run accessor editor (invoke_all is initial_world))"
    by (rule force_run)
  note path = run_cases [of accessor editor "invoke_all is initial_world"]
  note on = force_at_call [of "invoke_all is initial_world"]
  note log = effects_run [of accessor editor "invoke_all is initial_world"]
  from start path on log finish show ?thesis
    by (intro conjI)
qed

theorem run_sets_and_clears_force_flag_witness:
  "invoke_all [Run no_editor_focused editor_empty_selection,
               DefaultImplementation ''cut'' no_editor_focused] initial_world =
     \<lparr>forceCopyWithSyntaxHighlighting = False, effects = [ExecCommand ''cut'']\<rparr> \<and>
   run no_editor_focused editor_with_selection
       \<lparr>forceCopyWithSyntaxHighlighting = False, effects = [ExecCommand ''cut'']\<rparr> =
     set_forceCopyWithSyntaxHighlighting False
       (document_execCommand ''copy''
         \<lparr>forceCopyWithSyntaxHighlighting = True,
            effects = [ExecCommand ''cut'', SetForceCopyWithSyntaxHighlighting True,
                       EditorFocus]\<rparr>) \<and>
   run no_editor_focused editor_with_selection
       \<lparr>forceCopyWithSyntaxHighlighting = False, effects = [ExecCommand ''cut'']\<rparr> =
     \<lparr>forceCopyWithSyntaxHighlighting = False,
        effects = [ExecCommand ''cut'', SetForceCopyWithSyntaxHighlighting True, EditorFocus,
                   ExecCommand ''copy'', SetForceCopyWithSyntaxHighlighting False]\<rparr>"
proof -
  have reached:
    "invoke_all [Run no_editor_focused editor_empty_selection,
                 DefaultImplementation ''cut'' no_editor_focused] initial_world =
       \<lparr>forceCopyWithSyntaxHighlighting = False, effects = [ExecCommand ''cut'']\<rparr>"
    by (simp add: run_def editor_empty_selection_def hasModel_def getSelection_def
        default_implementation_def document_execCommand_def initial_world_def)
  from run_sets_and_clears_force_flag
    [of "[Run no_editor_focused editor_empty_selection,
          DefaultImplementation ''cut'' no_editor_focused]"
        no_editor_focused editor_with_selection]
  show ?thesis
    unfolding reached
    by (simp add: editor_with_selection_def getSelection_def editor_focus_def
        set_forceCopyWithSyntaxHighlighting_def document_execCommand_def)
qed

subsection \<open>The dispatch chain of cut, copy and paste\<close>

lemma executeCommand_CutAction:
  "executeCommand (CutAction (load_module h k)) accessor w =
     (if supportsCut h
      then Some (run_implementations
                   [(10000, focused_editor_implementation ''cut''),
                    (0, default_implementation ''cut'')] accessor w)
      else None)"
  by (simp add: CutAction_load runCommand_def executeCommand_def)

lemma executeCommand_CopyAction:
  "executeCommand (CopyAction (load_module h k)) accessor w =
     (if supportsCopy h
      then Some (run_implementations
                   [(10000, focused_editor_implementation ''copy''),
                    (0, default_implementation ''copy'')] accessor w)
      else None)"
  by (simp add: CopyAction_load runCommand_def executeCommand_def)

lemma executeCommand_PasteAction:
  "executeCommand (PasteAction (load_module h k)) accessor w =
     (if supportsPaste h
      then Some (run_implementations
                   [(10000, focused_editor_implementation ''paste''),
                    (0, default_implementation ''paste'')] accessor w)
      else None)"
  by (simp add: PasteAction_load runCommand_def executeCommand_def)

lemma run_two_implementations:
  "run_implementations
     [(10000, focused_editor_implementation c), (0, default_implementation c)] accessor w =
   (if fst (focused_editor_implementation c accessor w)
    then snd (focused_editor_implementation c accessor w)
    else snd (default_implementation c accessor
               (snd (focused_editor_implementation c accessor w))))"
  by (simp split: prod.splits bool.splits)

text \<open>
  C2: when a code editor is focused with text focus, and its selection is not empty
  or \<^verbatim>\<open>emptySelectionClipboard\<close> is on, the priority-10000 implementation of cut
  and of copy calls \<^verbatim>\<open>document.execCommand\<close> with the command's name and returns
  true; the chain of the registered command does that call and nothing else.
\<close>

theorem focused_editor_cut_copy_handled:
  assumes "getFocusedCodeEditor accessor = Some focusedEditor"
    and "hasTextFocus focusedEditor"
    and "map_option isEmpty (getSelection focusedEditor) = Some False \<or>
         emptySelectionClipboard focusedEditor"
    and "browserCommand = ''cut'' \<or> browserCommand = ''copy''"
  shows "focused_editor_implementation browserCommand accessor w =
           (True, document_execCommand browserCommand w) \<and>
         executeCommand (CutAction (load_module h k)) accessor w =
           (if supportsCut h then Some (document_execCommand ''cut'' w) else None) \<and>
         executeCommand (CopyAction (load_module h k)) accessor w =
           (if supportsCopy h then Some (document_execCommand ''copy'' w) else None)"
proof -
  have handled:
    "focused_editor_implementation b accessor w = (True, document_execCommand b w)" for b
    using assms(1-3)
    by (auto simp add: focused_editor_implementation_def split: option.splits)
  show ?thesis
    by (simp add: handled executeCommand_CutAction executeCommand_CopyAction
        run_two_implementations)
qed

theorem focused_editor_cut_copy_handled_witness:
  "getFocusedCodeEditor selection_focused = Some editor_with_selection \<and>
   hasTextFocus editor_with_selection \<and>
   map_option isEmpty (getSelection editor_with_selection) = Some False \<and>
   focused_editor_implementation ''cut'' selection_focused initial_world =
     (True, \<lparr>forceCopyWithSyntaxHighlighting = False, effects = [ExecCommand ''cut'']\<rparr>) \<and>
   executeCommand (CopyAction (load_module native_host example_keys))
       selection_focused initial_world =
     Some \<lparr>forceCopyWithSyntaxHighlighting = False, effects = [ExecCommand ''copy'']\<rparr>"
  using focused_editor_cut_copy_handled
    [of selection_focused editor_with_selection "''cut''" initial_world native_host
        example_keys]
  by (simp add: selection_focused_def editor_with_selection_def hasTextFocus_def
      getSelection_def native_host_def supportsCopy_def supportsCut_def
      document_execCommand_def initial_world_def)

text \<open>
  C7: when a code editor is focused with text focus, the priority-10000
  implementation of paste calls \<^verbatim>\<open>document.execCommand('paste')\<close> and returns true,
  whatever the selection and \<^verbatim>\<open>emptySelectionClipboard\<close> are; the chain of the
  registered command does that call and nothing else.
\<close>

theorem focused_editor_paste_unconditional:
  assumes "getFocusedCodeEditor accessor = Some focusedEditor"
    and "hasTextFocus focusedEditor"
  shows "focused_editor_implementation ''paste'' accessor w =
           (True, document_execCommand ''paste'' w) \<and>
         executeCommand (PasteAction (load_module h k)) accessor w =
           (if supportsPaste h then Some (document_execCommand ''paste'' w) else None)"
proof -
  have handled:
    "focused_editor_implementation ''paste'' accessor w =
       (True, document_execCommand ''paste'' w)"
    using assms by (simp add: focused_editor_implementation_def)
  show ?thesis
    by (simp add: handled executeCommand_PasteAction run_two_implementations)
qed

theorem focused_editor_paste_unconditional_witness:
  "getFocusedCodeEditor empty_selection_focused = Some editor_empty_selection \<and>
   hasTextFocus editor_empty_selection \<and>
   map_option isEmpty (getSelection editor_empty_selection) = Some True \<and>
   \<not> emptySelectionClipboard editor_empty_selection \<and>
   focused_editor_implementation ''paste'' empty_selection_focused initial_world =
     (True, \<lparr>forceCopyWithSyntaxHighlighting = False, effects = [ExecCommand ''paste'']\<rparr>) \<and>
   executeCommand (PasteAction (load_module native_host example_keys))
       empty_selection_focused initial_world =
     Some \<lparr>forceCopyWithSyntaxHighlighting = False, effects = [ExecCommand ''paste'']\<rparr>"
  using focused_editor_paste_unconditional
    [of empty_selection_focused editor_empty_selection initial_world native_host
        example_keys]
  by (simp add: empty_selection_focused_def editor_empty_selection_def hasTextFocus_def
      getSelection_def native_host_def supportsPaste_def document_execCommand_def
      initial_world_def)

text \<open>
  C1, as stated, fails: with a code editor focused with text focus, an empty selection
  and \<^verbatim>\<open>emptySelectionClipboard\<close> off, the condition of the claim does not hold,
  yet the priority-10000 implementation of cut returns true without a clipboard call,
  the fallback does not run, and the chain makes no call of \<^verbatim>\<open>document.execCommand\<close>.
\<close>

theorem fallback_not_run_counterexample:
  "getFocusedCodeEditor empty_selection_focused = Some editor_empty_selection \<and>
   hasTextFocus editor_empty_selection \<and>
   map_option isEmpty (getSelection editor_empty_selection) = Some True \<and>
   \<not> emptySelectionClipboard editor_empty_selection \<and>
   focused_editor_implementation ''cut'' empty_selection_focused initial_world =
     (True, initial_world) \<and>
   executeCommand (CutAction (load_module native_host example_keys))
       empty_selection_focused initial_world = Some initial_world \<and>
   ExecCommand ''cut'' \<notin> set (effects initial_world)"
  by (simp add: CutAction_load runCommand_def executeCommand_def
      focused_editor_implementation_def empty_selection_focused_def
      editor_empty_selection_def hasTextFocus_def getSelection_def native_host_def
      supportsCut_def initial_world_def)

text \<open>
  C1, amended: for cut and copy, the priority-10000 implementation declines exactly
  when no code editor is focused with text focus; then the priority-0 fallback runs and
  calls \<^verbatim>\<open>document.execCommand\<close> for the command. When a code editor is focused
  with text focus the fallback does not run: the priority-10000 implementation makes
  the call, unless the selection is empty and \<^verbatim>\<open>emptySelectionClipboard\<close> is off,
  where no clipboard call is made.
\<close>

theorem cut_copy_dispatch:
  assumes "browserCommand = ''cut'' \<or> browserCommand = ''copy''"
  shows "fst (focused_editor_implementation browserCommand accessor w) =
           (case getFocusedCodeEditor accessor of
              None \<Rightarrow> False
            | Some focusedEditor \<Rightarrow> hasTextFocus focusedEditor) \<and>
         default_implementation browserCommand accessor w =
           (True, document_execCommand browserCommand w) \<and>
         run_implementations
           [(10000, focused_editor_implementation browserCommand),
            (0, default_implementation browserCommand)] accessor w =
           (case getFocusedCodeEditor accessor of
              None \<Rightarrow> document_execCommand browserCommand w
            | Some focusedEditor \<Rightarrow>
                if hasTextFocus focusedEditor then
                  if map_option isEmpty (getSelection focusedEditor) = Some True \<and>
                     \<not> emptySelectionClipboard focusedEditor
                  then w
                  else document_execCommand browserCommand w
                else document_execCommand browserCommand w) \<and>
         executeCommand (CutAction (load_module h k)) accessor w =
           (if supportsCut h
            then Some (run_implementations
                         [(10000, focused_editor_implementation ''cut''),
                          (0, default_implementation ''cut'')] accessor w)
            else None) \<and>
         executeCommand (CopyAction (load_module h k)) accessor w =
           (if supportsCopy h
            then Some (run_implementations
                         [(10000, focused_editor_implementation ''copy''),
                          (0, default_implementation ''copy'')] accessor w)
            else None)"
  using assms
  by (auto simp add: executeCommand_CutAction executeCommand_CopyAction
      focused_editor_implementation_def default_implementation_def
      split: option.splits)

theorem cut_copy_dispatch_witness:
  "fst (focused_editor_implementation ''cut'' no_editor_focused initial_world) = False \<and>
   executeCommand (CutAction (load_module native_host example_keys))
       no_editor_focused initial_world =
     Some \<lparr>forceCopyWithSyntaxHighlighting = False, effects = [ExecCommand ''cut'']\<rparr> \<and>
   fst (focused_editor_implementation ''copy'' empty_selection_focused initial_world) = True \<and>
   executeCommand (CopyAction (load_module native_host example_keys))
       empty_selection_focused initial_world =
     Some \<lparr>forceCopyWithSyntaxHighlighting = False, effects = []\<rparr>"
proof -
  note cut_none =
    cut_copy_dispatch [of "''cut''" no_editor_focused initial_world native_host example_keys]
  note copy_empty =
    cut_copy_dispatch
      [of "''copy''" empty_selection_focused initial_world native_host example_keys]
  have native: "supportsCut native_host" "supportsCopy native_host"
    by (simp_all add: supportsCut_def supportsCopy_def native_host_def)
  have declined:
    "fst (focused_editor_implementation ''cut'' no_editor_focused initial_world) = False"
    using cut_none by (simp add: no_editor_focused_def)
  have fallback:
    "executeCommand (CutAction (load_module native_host example_keys))
       no_editor_focused initial_world =
     Some (document_execCommand ''cut'' initial_world)"
    using cut_none native
    by (simp del: run_implementations.simps add: no_editor_focused_def)
  have handled:
    "fst (focused_editor_implementation ''copy'' empty_selection_focused initial_world) = True"
    using copy_empty
    by (simp add: empty_selection_focused_def editor_empty_selection_def hasTextFocus_def)
  have no_call:
    "executeCommand (CopyAction (load_module native_host example_keys))
       empty_selection_focused initial_world = Some initial_world"
    using copy_empty native
    by (simp del: run_implementations.simps add: empty_selection_focused_def
        editor_empty_selection_def hasTextFocus_def getSelection_def)
  from declined fallback handled no_call show ?thesis
    by (simp add: document_execCommand_def initial_world_def)
qed

end
